theory Spec2Isabelle
  imports Main
begin

section \<open>The Hathora game context (client/web/src/context/GameContext.tsx)\<close>

text \<open>
  The React provider \<open>HathoraContextProvider\<close> keeps its state in hooks (\<open>useState\<close>,
  \<open>useSessionStorage\<close>, \<open>useRef\<close>) and exposes methods that talk to three collaborators:
  the transport client (\<open>client.loginAnonymous\<close>, \<open>client.connect\<close>, \<open>client.create\<close>,
  the connection's \<open>disconnect\<close> and game actions, \<open>HathoraClient.getUserFromToken\<close>), the
  lookup service (\<open>lookupUser\<close>) and the toast library.

  The embedding is by explicit state passing. The hook values are the fields of the record
  \<open>ctx\<close>; every method takes the state and returns its result with the new state. What a
  collaborator answers is not code of the provider, so it is an argument of the method: a value
  of type \<open>exn + 'a\<close>, where \<open>Inl e\<close> is a thrown exception or a rejected promise and
  \<open>Inr v\<close> the value the call produced. Every call a method makes to a collaborator is
  appended to the field \<open>trace\<close>, so that "issues one request" and "shows one notification"
  are statements about that list. A method that can let an exception escape returns
  \<open>exn + 'a\<close> itself.

  The setters of a method or callback are applied in the order in which they are called.
  A method is a closure of the last render and reads the hook values of that render; the
  model lets it read the current values, which are the same once a render has followed
  the setters of what it reads (the callbacks of \<open>connect\<close> read no hook value, and the
  guard of \<open>login\<close> is a ref, read as it is). The three effects of
  the provider do not run with the setters: React (the application is mounted with
  \<open>createRoot\<close>) collects the updates made since the last render, renders once, and then
  runs each effect whose dependency is not the value it had at the previous render. That
  step is \<open>render\<close>; the fields \<open>dep_error\<close>, \<open>dep_token\<close> and \<open>dep_turn\<close> hold the
  dependencies as they were at the last render.
\<close>

subsection \<open>Data\<close>

type_synonym exn = string

text \<open>\<open>UserData\<close> of api/base: the fields the context reads are \<open>id\<close> and \<open>name\<close>.\<close>

record UserData =
  uid :: string
  uname :: string

text \<open>
  \<open>UpdateArgs["state"]\<close>: the context reads \<open>turn\<close> only (tested for truthiness, so it may
  be undefined), the lobby reads \<open>players\<close>; \<open>detail\<close> stands for the game-specific rest.
\<close>

record snapshot =
  turn :: "string option"
  players :: "string list"
  detail :: string

text \<open>\<open>ConnectionFailure\<close>: the context reads \<open>message\<close>.\<close>

record ConnectionFailure =
  message :: string

text \<open>\<open>Response\<close> of api/base: \<open>{type: "ok"}\<close> or \<open>{type: "error", error}\<close>.\<close>

datatype response = ROk | RError string

datatype action = JoinGame | StartGame | PlayCard string | DrawCard

datatype toast_kind = ToastError | ToastSuccess | ToastInfo

text \<open>The calls made to the collaborators, in the order they are made.\<close>

datatype effect =
    LoginAnonymous
  | Create string string
  | Connect "string option" string nat
  | ConnDisconnect nat
  | Act nat action
  | LookupUser string
  | Toast toast_kind string
  | ConsoleError exn

record ctx =
  token :: "string option"
  connection :: "nat option"
  playerState :: "snapshot option"
  events :: "string list option"
  connectionError :: "ConnectionFailure option"
  connecting :: "bool option"
  loggingIn :: "bool option"
  playerNameMapping :: "string \<rightharpoonup> UserData"
  user :: "UserData option"
  isLoginIn :: bool
  trace :: "effect list"
  errors_seen :: nat
  dep_error :: "nat option"
  dep_token :: "string option"
  dep_turn :: "string option"

text \<open>
  The hook values before the first render, with empty session storage. React compares
  the dependency \<open>connectionError\<close> by object identity; \<open>errors_seen\<close> counts the calls of the
  on-failure callback, and the failure object stored by the \<open>k\<close>-th call is object \<open>k\<close>.
\<close>

definition init_ctx :: ctx where
  "init_ctx = \<lparr>token = None, connection = None, playerState = None, events = None,
     connectionError = None, connecting = None, loggingIn = None,
     playerNameMapping = Map.empty, user = None, isLoginIn = False, trace = [],
     errors_seen = 0, dep_error = None, dep_token = None, dep_turn = None\<rparr>"

text \<open>JavaScript truthiness of a \<open>string | undefined\<close>: defined and not empty.\<close>

fun truthy :: "string option \<Rightarrow> bool" where
  "truthy None = False"
| "truthy (Some t) = (t \<noteq> [])"

definition emit :: "effect \<Rightarrow> ctx \<Rightarrow> ctx" where
  "emit e s = s\<lparr>trace := trace s @ [e]\<rparr>"

definition is_toast :: "effect \<Rightarrow> bool" where
  "is_toast e = (case e of Toast k m \<Rightarrow> True | _ \<Rightarrow> False)"

definition toasts :: "ctx \<Rightarrow> effect list" where
  "toasts s = filter is_toast (trace s)"


definition login_requests :: "ctx \<Rightarrow> nat" where
  "login_requests s = count_list (trace s) LoginAnonymous"

subsection \<open>getUserName (lines 175-187)\<close>

text \<open>
  The mapping is a plain JavaScript object used as a dictionary from user ids to
  \<open>UserData\<close> objects: \<open>{}\<close>, what session storage held, or an object literal that spreads
  the previous mapping. The map \<open>playerNameMapping\<close> holds its own properties. Reading
  \<open>playerNameMapping[userId]\<close> finds an own property first and a member of
  \<open>Object.prototype\<close> otherwise. \<open>object_prototype k\<close> is \<open>None\<close> when \<open>Object.prototype\<close> has
  no member \<open>k\<close>; otherwise the member is an object or a function, hence truthy, and
  \<open>object_prototype k\<close> is \<open>Some\<close> of what its property \<open>name\<close> holds: the function's name, or
  \<open>None\<close> for \<open>undefined\<close> (the member \<open>__proto__\<close> is \<open>Object.prototype\<close> itself, which has no
  \<open>name\<close>).
\<close>

definition object_prototype :: "string \<Rightarrow> string option option" where
  "object_prototype k =
     (if k = ''constructor'' then Some (Some ''Object'')
      else if k = ''__proto__'' then Some None
      else if k \<in> set [''hasOwnProperty'', ''isPrototypeOf'', ''propertyIsEnumerable'',
                        ''toLocaleString'', ''toString'', ''valueOf'',
                        ''__defineGetter__'', ''__defineSetter__'',
                        ''__lookupGetter__'', ''__lookupSetter__'']
      then Some (Some k)
      else None)"

text \<open>
  \<open>getUserName\<close> returns a string or, through \<open>__proto__\<close>, \<open>undefined\<close> (\<open>None\<close>). The \<open>then\<close>
  callback of the lookup is \<open>lookup_resolved\<close>; a rejected lookup runs nothing.
\<close>

definition getUserName :: "string \<Rightarrow> ctx \<Rightarrow> string option \<times> ctx" where
  "getUserName userId s =
     (case playerNameMapping s userId of
        Some r \<Rightarrow> (Some (uname r), s)
      | None \<Rightarrow>
          (case object_prototype userId of
             Some n \<Rightarrow> (n, s)
           | None \<Rightarrow> (Some userId, emit (LookupUser userId) s)))"

definition lookup_resolved :: "string \<Rightarrow> UserData \<Rightarrow> ctx \<Rightarrow> ctx" where
  "lookup_resolved userId resp s =
     s\<lparr>playerNameMapping := (playerNameMapping s)(userId \<mapsto> resp)\<rparr>"

subsection \<open>The turn effect (lines 195-203)\<close>

text \<open>\<open>playerState?.turn\<close>\<close>

definition turn_of :: "snapshot option \<Rightarrow> string option" where
  "turn_of p = (case p of None \<Rightarrow> None | Some st \<Rightarrow> turn st)"

text \<open>\<open>user?.id\<close>\<close>

definition user_id :: "UserData option \<Rightarrow> string option" where
  "user_id u = (case u of None \<Rightarrow> None | Some r \<Rightarrow> Some (uid r))"

text \<open>A value placed in a template literal: \<open>undefined\<close> reads "undefined".\<close>

definition js_string :: "string option \<Rightarrow> string" where
  "js_string v = (case v of None \<Rightarrow> ''undefined'' | Some n \<Rightarrow> n)"

text \<open>The body of the effect. When it runs is decided in \<open>render\<close>.\<close>

definition turnEffect :: "ctx \<Rightarrow> ctx" where
  "turnEffect s =
     (if truthy (turn_of (playerState s)) then
        (if turn_of (playerState s) = user_id (user s) then
           emit (Toast ToastSuccess ''It's you turn'') s
         else
           (case getUserName (the (turn_of (playerState s))) s of
              (n, s') \<Rightarrow> emit (Toast ToastInfo (''it is '' @ js_string n @ '''s turn'')) s'))
      else s)"

text \<open>The setter stores the value; no effect runs before the next render.\<close>

definition setPlayerState :: "snapshot option \<Rightarrow> ctx \<Rightarrow> ctx" where
  "setPlayerState p s = s\<lparr>playerState := p\<rparr>"

subsection \<open>connect, its callbacks, disconnect, endGame (lines 91-120, 164-167)\<close>

text \<open>
  \<open>connect c stateId\<close>: \<open>c\<close> is what \<open>client.connect\<close> does, throwing or returning the new
  connection, named by a number. The two callbacks handed to \<open>client.connect\<close> are
  \<open>onUpdate\<close> and \<open>onError\<close>; their code does not mention the connection. Every call of
  \<open>onError\<close> is taken to pass a failure object of its own, so it counts in \<open>errors_seen\<close>.
\<close>

definition connect :: "exn + nat \<Rightarrow> string \<Rightarrow> ctx \<Rightarrow> (exn + nat) \<times> ctx" where
  "connect c stateId s =
     (let s1 = s\<lparr>connecting := Some True\<rparr> in
      case c of
        Inl e \<Rightarrow> (Inl e, s1)
      | Inr h \<Rightarrow> (Inr h, (emit (Connect (token s) stateId h) s1)\<lparr>connection := Some h\<rparr>))"

definition onUpdate :: "snapshot \<Rightarrow> ctx \<Rightarrow> ctx" where
  "onUpdate st s = (setPlayerState (Some st) s)\<lparr>connecting := Some False\<rparr>"

definition onError :: "ConnectionFailure \<Rightarrow> ctx \<Rightarrow> ctx" where
  "onError e s =
     s\<lparr>connectionError := Some e, connecting := Some False, errors_seen := Suc (errors_seen s)\<rparr>"

text \<open>The connections whose callbacks were registered: those \<open>client.connect\<close> returned.\<close>

fun registered :: "effect list \<Rightarrow> nat list" where
  "registered [] = []"
| "registered (Connect t g h # es) = h # registered es"
| "registered (e # es) = registered es"

text \<open>The transport calls the callback it was given for connection \<open>h\<close>.\<close>

definition fire_update :: "nat \<Rightarrow> snapshot \<Rightarrow> ctx \<Rightarrow> ctx" where
  "fire_update h st s = (if h \<in> set (registered (trace s)) then onUpdate st s else s)"

definition fire_error :: "nat \<Rightarrow> ConnectionFailure \<Rightarrow> ctx \<Rightarrow> ctx" where
  "fire_error h e s = (if h \<in> set (registered (trace s)) then onError e s else s)"

definition disconnect :: "ctx \<Rightarrow> ctx" where
  "disconnect s =
     (case connection s of
        Some h \<Rightarrow>
          (setPlayerState None ((emit (ConnDisconnect h) s)\<lparr>connection := None\<rparr>))
            \<lparr>events := None, connectionError := None\<rparr>
      | None \<Rightarrow> s)"

definition endGame :: "ctx \<Rightarrow> ctx" where
  "endGame s =
     (let s1 = setPlayerState None s in
      case connection s of
        Some h \<Rightarrow> emit (ConnDisconnect h) s1
      | None \<Rightarrow> s1)"

subsection \<open>login (lines 67-89) and the token effect (lines 189-193)\<close>

text \<open>
  \<open>login\<close> suspends once, at \<open>await client.loginAnonymous()\<close>. \<open>login_begin\<close> is the code
  up to that point: it either suspends with the request issued, or returns at once
  (\<open>undefined\<close>) when the guard \<open>isLoginIn.current\<close> is set. \<open>login_settle lo dec\<close> is the
  code that runs when the request settles with \<open>lo\<close>; \<open>dec\<close> is
  \<open>HathoraClient.getUserFromToken\<close>. \<open>login_try\<close> is the rest of the \<open>try\<close> block,
  \<open>catch_log\<close> the \<open>catch\<close> clause, and the record update in \<open>login_settle\<close> the
  \<open>finally\<close> clause.
\<close>

datatype 'a started = Suspended | Returned 'a

definition login_begin :: "ctx \<Rightarrow> string option started \<times> ctx" where
  "login_begin s =
     (if \<not> isLoginIn s
      then (Suspended, emit LoginAnonymous (s\<lparr>loggingIn := Some True, isLoginIn := True\<rparr>))
      else (Returned None, s))"

definition login_try ::
  "exn + string \<Rightarrow> (string \<Rightarrow> exn + UserData) \<Rightarrow> ctx \<Rightarrow> (exn + string option) \<times> ctx" where
  "login_try lo dec s =
     (case lo of
        Inl e \<Rightarrow> (Inl e, s)
      | Inr tok \<Rightarrow>
          (if truthy (Some tok) then
             (case dec tok of
                Inl e \<Rightarrow> (Inl e, s)
              | Inr u \<Rightarrow>
                  (Inr (Some tok),
                   s\<lparr>user := Some u,
                     playerNameMapping := (playerNameMapping s)(uid u \<mapsto> u),
                     token := Some tok\<rparr>))
           else (Inr (Some tok), s\<lparr>token := Some tok\<rparr>)))"

definition catch_log :: "(exn + 'a option) \<times> ctx \<Rightarrow> (exn + 'a option) \<times> ctx" where
  "catch_log rs =
     (case rs of
        (Inl e, s) \<Rightarrow> (Inr None, emit (ConsoleError e) s)
      | (Inr v, s) \<Rightarrow> (Inr v, s))"

definition login_settle ::
  "exn + string \<Rightarrow> (string \<Rightarrow> exn + UserData) \<Rightarrow> ctx \<Rightarrow> (exn + string option) \<times> ctx" where
  "login_settle lo dec s =
     (case catch_log (login_try lo dec s) of
        (r, s') \<Rightarrow> (r, s'\<lparr>isLoginIn := False, loggingIn := Some False\<rparr>))"

text \<open>A call of \<open>login\<close> run to its end, nothing else running in between.\<close>

definition login ::
  "exn + string \<Rightarrow> (string \<Rightarrow> exn + UserData) \<Rightarrow> ctx \<Rightarrow> (exn + string option) \<times> ctx" where
  "login lo dec s =
     (case login_begin s of
        (Suspended, s1) \<Rightarrow> login_settle lo dec s1
      | (Returned v, s1) \<Rightarrow> (Inr v, s1))"

text \<open>
  The body of the effect with the dependency array \<open>[token]\<close>; an exception of the decoder
  leaves the effect. After a \<open>login\<close> that stored a token the effect finds the user it
  would set already there (lemma \<open>tokenEffect_after_login\<close>).
\<close>

definition tokenEffect :: "(string \<Rightarrow> exn + UserData) \<Rightarrow> ctx \<Rightarrow> exn + ctx" where
  "tokenEffect dec s =
     (if truthy (token s) then
        (case dec (the (token s)) of
           Inl e \<Rightarrow> Inl e
         | Inr u \<Rightarrow> Inr (s\<lparr>user := Some u\<rparr>))
      else Inr s)"

subsection \<open>Rendering: when the effects run (lines 169-173, 189-203)\<close>

text \<open>
  The body of the effect with the dependency array \<open>[connectionError]\<close>, and the identity
  of the failure object that is stored (\<open>undefined\<close> when none is).
\<close>

definition errorEffect :: "ctx \<Rightarrow> ctx" where
  "errorEffect s =
     (case connectionError s of
        Some e \<Rightarrow> emit (Toast ToastError (message e)) s
      | None \<Rightarrow> s)"

definition error_ref :: "ctx \<Rightarrow> nat option" where
  "error_ref s = (case connectionError s of None \<Rightarrow> None | Some e \<Rightarrow> Some (errors_seen s))"

text \<open>
  One render with the effects that follow it. Every effect whose dependency differs from
  the remembered one runs, in the order of the source: the toast for a connection error,
  the token effect, the turn effect. The bodies are closures of this render, so each
  reads the state as it is when the render starts: the turn effect does not see the user
  that the token effect of the same render sets. The token effect writes \<open>user\<close> only and
  shows nothing, so the model applies it last, where its exception (which unmounts the
  provider) is the result of the step.
\<close>

definition render :: "(string \<Rightarrow> exn + UserData) \<Rightarrow> ctx \<Rightarrow> exn + ctx" where
  "render dec s =
     (let s1 = (if error_ref s \<noteq> dep_error s then errorEffect s else s);
          s2 = (if turn_of (playerState s) \<noteq> dep_turn s then turnEffect s1 else s1);
          s3 = s2\<lparr>dep_error := error_ref s, dep_token := token s,
                   dep_turn := turn_of (playerState s)\<rparr>
      in if token s \<noteq> dep_token s then tokenEffect dec s3 else Inr s3)"

text \<open>A state that a render has left and no setter has changed since.\<close>

definition rendered :: "ctx \<Rightarrow> bool" where
  "rendered s \<longleftrightarrow>
     dep_error s = error_ref s \<and> dep_token s = token s \<and> dep_turn s = turn_of (playerState s)"


subsection \<open>createGame, joinGame and the game actions (lines 36-52, 122-162)\<close>

text \<open>
  \<open>createGame lo dec co dflt\<close>: \<open>co\<close> is how \<open>client.create\<close> settles and \<open>dflt\<close> is the
  value of \<open>IInitializeRequest.default()\<close>; \<open>lo\<close> and \<open>dec\<close> are handed to \<open>login\<close>.
\<close>

definition create :: "exn + string \<Rightarrow> string \<Rightarrow> string \<Rightarrow> ctx \<Rightarrow> (exn + string option) \<times> ctx" where
  "create co tok dflt s =
     (case co of
        Inl e \<Rightarrow> (Inl e, emit (Create tok dflt) s)
      | Inr gameId \<Rightarrow> (Inr (Some gameId), emit (Create tok dflt) s))"

definition createGame ::
  "exn + string \<Rightarrow> (string \<Rightarrow> exn + UserData) \<Rightarrow> exn + string \<Rightarrow> string \<Rightarrow> ctx
     \<Rightarrow> (exn + string option) \<times> ctx" where
  "createGame lo dec co dflt s =
     (if truthy (token s) then create co (the (token s)) dflt s
      else
        (case login lo dec s of
           (Inl e, s1) \<Rightarrow> (Inl e, s1)
         | (Inr tok, s1) \<Rightarrow>
             (if truthy tok then create co (the tok) dflt s1 else (Inr None, s1))))"

text \<open>\<open>HandleConnection prom\<close>: \<open>prom\<close> is how the promise of the action settles.\<close>

definition HandleConnection :: "exn + response \<Rightarrow> ctx \<Rightarrow> (exn + response) \<times> ctx" where
  "HandleConnection prom s =
     (case prom of
        Inl e \<Rightarrow> (Inl e, s)
      | Inr (RError m) \<Rightarrow> (Inr (RError m), emit (Toast ToastError m) s)
      | Inr ROk \<Rightarrow> (Inr ROk, s))"

definition handled_action :: "action \<Rightarrow> exn + response \<Rightarrow> ctx \<Rightarrow> (exn + unit) \<times> ctx" where
  "handled_action a prom s =
     (case connection s of
        Some h \<Rightarrow>
          (case HandleConnection prom (emit (Act h a) s) of
             (Inl e, s') \<Rightarrow> (Inl e, s')
           | (Inr r, s') \<Rightarrow> (Inr (), s'))
      | None \<Rightarrow> (Inr (), s))"

definition startGame :: "exn + response \<Rightarrow> ctx \<Rightarrow> (exn + unit) \<times> ctx" where
  "startGame prom s = handled_action StartGame prom s"

definition playCard :: "string \<Rightarrow> exn + response \<Rightarrow> ctx \<Rightarrow> (exn + unit) \<times> ctx" where
  "playCard crd prom s = handled_action (PlayCard crd) prom s"

definition drawCard :: "exn + response \<Rightarrow> ctx \<Rightarrow> (exn + unit) \<times> ctx" where
  "drawCard prom s = handled_action DrawCard prom s"

text \<open>
  \<open>joinGame c prom gameId\<close>: \<open>c\<close> is what \<open>client.connect\<close> does and \<open>prom\<close> how
  \<open>connection.joinGame({})\<close> settles. The response is awaited and dropped.
\<close>

definition joinGame :: "exn + nat \<Rightarrow> exn + response \<Rightarrow> string \<Rightarrow> ctx \<Rightarrow> (exn + unit) \<times> ctx" where
  "joinGame c prom gameId s =
     (case connect c gameId s of
        (Inl e, s1) \<Rightarrow> (Inl e, s1)
      | (Inr h, s1) \<Rightarrow>
          (case prom of
             Inl e \<Rightarrow> (Inl e, emit (Act h JoinGame) s1)
           | Inr r \<Rightarrow> (Inr (), emit (Act h JoinGame) s1)))"

subsection \<open>Executions\<close>

text \<open>
  What can happen to a mounted provider, one event at a time: a method is called, the
  pending login request settles, the transport calls a callback, a lookup resolves, React
  renders. Any number of events can lie between two renders. A render whose token effect
  throws unmounts the provider, so it is not a step of a mounted one: the event leaves the
  configuration as it is, as does a login settling when none is in flight. (When the
  token the provider mounted with decodes, no render of the execution throws: lemmas
  \<open>run_token_decodes\<close> and \<open>render_total\<close>.) A
  configuration pairs the state with the number of \<open>loginAnonymous\<close> requests that have
  been issued and have not settled yet. A call of \<open>login\<close> is the two events \<open>CallLogin\<close>
  and \<open>LoginSettles\<close>, with anything in between; a call of \<open>createGame\<close> is one event, its
  login (if it makes one) settling before anything else happens.
\<close>

datatype event =
    CallLogin
  | LoginSettles "exn + string"
  | CallConnect "exn + nat" string
  | Update nat snapshot
  | Failure nat ConnectionFailure
  | CallDisconnect
  | CallEndGame
  | CallGetUserName string
  | LookupResolves string UserData
  | CallStartGame "exn + response"
  | CallPlayCard string "exn + response"
  | CallDrawCard "exn + response"
  | CallJoinGame "exn + nat" "exn + response" string
  | CallCreateGame "exn + string" "exn + string" string
  | Render

fun step :: "(string \<Rightarrow> exn + UserData) \<Rightarrow> event \<Rightarrow> ctx \<times> nat \<Rightarrow> ctx \<times> nat" where
  "step dec CallLogin (s, n) =
     (case login_begin s of
        (Suspended, s1) \<Rightarrow> (s1, Suc n)
      | (Returned v, s1) \<Rightarrow> (s1, n))"
| "step dec (LoginSettles lo) (s, n) =
     (if n = 0 then (s, n) else (snd (login_settle lo dec s), n - 1))"
| "step dec (CallConnect c g) (s, n) = (snd (connect c g s), n)"
| "step dec (Update h st) (s, n) = (fire_update h st s, n)"
| "step dec (Failure h e) (s, n) = (fire_error h e s, n)"
| "step dec CallDisconnect (s, n) = (disconnect s, n)"
| "step dec CallEndGame (s, n) = (endGame s, n)"
| "step dec (CallGetUserName i) (s, n) = (snd (getUserName i s), n)"
| "step dec (LookupResolves i r) (s, n) = (lookup_resolved i r s, n)"
| "step dec (CallStartGame prom) (s, n) = (snd (startGame prom s), n)"
| "step dec (CallPlayCard c prom) (s, n) = (snd (playCard c prom s), n)"
| "step dec (CallDrawCard prom) (s, n) = (snd (drawCard prom s), n)"
| "step dec (CallJoinGame c prom g) (s, n) = (snd (joinGame c prom g s), n)"
| "step dec (CallCreateGame lo co dflt) (s, n) = (snd (createGame lo dec co dflt s), n)"
| "step dec Render (s, n) = (case render dec s of Inr s' \<Rightarrow> (s', n) | Inl e \<Rightarrow> (s, n))"

fun run :: "(string \<Rightarrow> exn + UserData) \<Rightarrow> event list \<Rightarrow> ctx \<times> nat \<Rightarrow> ctx \<times> nat" where
  "run dec [] cfg = cfg"
| "run dec (ev # evs) cfg = run dec evs (step dec ev cfg)"

subsection \<open>Concrete inputs\<close>

definition ex_decode :: "string \<Rightarrow> exn + UserData" where
  "ex_decode t =
     (if t = [] then Inl ''invalid token''
      else Inr \<lparr>uid = ''id-'' @ t, uname = ''name-'' @ t\<rparr>)"

definition ex_snap :: "string option \<Rightarrow> snapshot" where
  "ex_snap t = \<lparr>turn = t, players = [''id-tok'', ''bob''], detail = ''round 1''\<rparr>"

definition ex_logged_in :: ctx where
  "ex_logged_in = snd (login (Inr ''tok'') ex_decode init_ctx)"

definition ex_connected :: ctx where
  "ex_connected = snd (connect (Inr 0) ''ROOM1'' ex_logged_in)"

definition ex_playing :: ctx where
  "ex_playing = fst (run ex_decode [Update 0 (ex_snap (Some ''bob'')), Render] (ex_connected, 0))"

definition ex_bad_decode :: "string \<Rightarrow> exn + UserData" where
  "ex_bad_decode t = Inl ''malformed token''"

definition ex_failure :: ConnectionFailure where
  "ex_failure = \<lparr>message = ''connection lost''\<rparr>"

definition ex_token_only :: ctx where
  "ex_token_only = init_ctx\<lparr>token := Some ''tok''\<rparr>"

definition ex_two_connects :: "event list" where
  "ex_two_connects = [CallConnect (Inr 0) ''ROOM1'', CallConnect (Inr 1) ''ROOM2'']"

definition ex_reconnect :: "event list" where
  "ex_reconnect = [CallConnect (Inr 0) ''ROOM1'', CallDisconnect, CallConnect (Inr 1) ''ROOM2'']"

section \<open>Properties\<close>

subsection \<open>What the setters, the effects and a render leave alone\<close>

lemma turnEffect_frame: "turnEffect s = s\<lparr>trace := trace (turnEffect s)\<rparr>"
  by (simp add: turnEffect_def getUserName_def emit_def split: option.splits)

lemma errorEffect_frame: "errorEffect s = s\<lparr>trace := trace (errorEffect s)\<rparr>"
  by (simp add: errorEffect_def emit_def split: option.splits)

lemma setPlayerState_None: "setPlayerState None s = s\<lparr>playerState := None\<rparr>"
  by (simp add: setPlayerState_def)

lemma onUpdate_eq:
  "onUpdate st s = s\<lparr>playerState := Some st, connecting := Some False\<rparr>"
  by (simp add: onUpdate_def setPlayerState_def)

lemma onUpdate_fields:
  "playerState (onUpdate st s) = Some st"
  "connecting (onUpdate st s) = Some False"
  "connection (onUpdate st s) = connection s"
  "connectionError (onUpdate st s) = connectionError s"
  "user (onUpdate st s) = user s"
  "token (onUpdate st s) = token s"
  "isLoginIn (onUpdate st s) = isLoginIn s"
  "playerNameMapping (onUpdate st s) = playerNameMapping s"
  "trace (onUpdate st s) = trace s"
  by (simp_all add: onUpdate_eq)

lemma turnEffect_fields:
  "token (turnEffect s) = token s"
  "connection (turnEffect s) = connection s"
  "playerState (turnEffect s) = playerState s"
  "connectionError (turnEffect s) = connectionError s"
  "playerNameMapping (turnEffect s) = playerNameMapping s"
  "user (turnEffect s) = user s"
  "isLoginIn (turnEffect s) = isLoginIn s"
  "errors_seen (turnEffect s) = errors_seen s"
  by (subst turnEffect_frame, simp)+

lemma errorEffect_fields:
  "token (errorEffect s) = token s"
  "connection (errorEffect s) = connection s"
  "playerState (errorEffect s) = playerState s"
  "connectionError (errorEffect s) = connectionError s"
  "playerNameMapping (errorEffect s) = playerNameMapping s"
  "user (errorEffect s) = user s"
  "isLoginIn (errorEffect s) = isLoginIn s"
  "errors_seen (errorEffect s) = errors_seen s"
  by (subst errorEffect_frame, simp)+

text \<open>
  A render that succeeds changes the trace, the user and the remembered dependencies,
  and nothing else; afterwards the state is \<open>rendered\<close>.
\<close>

lemma render_fields:
  assumes "render dec s = Inr s'"
  shows "token s' = token s"
    and "connection s' = connection s"
    and "playerState s' = playerState s"
    and "connectionError s' = connectionError s"
    and "playerNameMapping s' = playerNameMapping s"
    and "isLoginIn s' = isLoginIn s"
    and "errors_seen s' = errors_seen s"
    and "dep_error s' = error_ref s"
    and "dep_token s' = token s"
    and "dep_turn s' = turn_of (playerState s)"
  using assms
  by (auto simp: render_def Let_def tokenEffect_def
        turnEffect_fields errorEffect_fields split: if_splits sum.splits)

lemma render_rendered_after: "render dec s = Inr s' \<Longrightarrow> rendered s'"
  using render_fields [of dec s s']
  by (auto simp: rendered_def error_ref_def split: option.splits)

text \<open>On a rendered state a render does nothing.\<close>

lemma render_rendered: "rendered s \<Longrightarrow> render dec s = Inr s"
  by (simp add: render_def rendered_def)

subsection \<open>Notifications in the trace\<close>

lemma getUserName_name_indep:
  "playerNameMapping s' = playerNameMapping s \<Longrightarrow>
     fst (getUserName i s') = fst (getUserName i s)"
  by (simp add: getUserName_def split: option.splits)

lemma toasts_emit_lookup: "toasts (emit (LookupUser i) s) = toasts s"
  by (simp add: toasts_def emit_def is_toast_def)

lemma toasts_emit_toast: "toasts (emit (Toast k m) s) = toasts s @ [Toast k m]"
  by (simp add: toasts_def emit_def is_toast_def)

lemma toasts_getUserName: "toasts (snd (getUserName i s)) = toasts s"
  by (simp add: getUserName_def toasts_emit_lookup split: option.splits)

lemma toasts_turnEffect:
  "toasts (turnEffect s) = toasts s @
     (if truthy (turn_of (playerState s)) then
        [if turn_of (playerState s) = user_id (user s)
         then Toast ToastSuccess ''It's you turn''
         else Toast ToastInfo
                (''it is '' @ js_string (fst (getUserName (the (turn_of (playerState s))) s))
                   @ '''s turn'')]
      else [])"
proof -
  obtain n s' where g: "getUserName (the (turn_of (playerState s))) s = (n, s')"
    by (cases "getUserName (the (turn_of (playerState s))) s")
  then have "toasts s' = toasts s"
    using toasts_getUserName [of "the (turn_of (playerState s))" s] by simp
  with g show ?thesis
    by (simp add: turnEffect_def toasts_emit_toast)
qed

lemma handled_action_result: "fst (handled_action a (Inr r) s) = Inr ()"
  by (simp add: handled_action_def HandleConnection_def split: option.splits response.splits)

lemma handled_action_toasts:
  "toasts (snd (handled_action a (Inr r) s)) =
     toasts s @ (case connection s of None \<Rightarrow> []
                 | Some h \<Rightarrow> (case r of ROk \<Rightarrow> [] | RError m \<Rightarrow> [Toast ToastError m]))"
  by (simp add: handled_action_def HandleConnection_def toasts_def emit_def is_toast_def
        split: option.splits response.splits)

subsection \<open>Snapshots between two renders\<close>

lemma fold_onUpdate:
  "sts \<noteq> [] \<Longrightarrow>
     fold onUpdate sts s = s\<lparr>playerState := Some (last sts), connecting := Some False\<rparr>"
proof (induction sts arbitrary: s)
  case Nil
  then show ?case by simp
next
  case (Cons st sts)
  show ?case
  proof (cases "sts = []")
    case True
    then show ?thesis by (simp add: onUpdate_eq)
  next
    case False
    with Cons.IH [of "onUpdate st s"] show ?thesis
      by (simp add: onUpdate_eq)
  qed
qed

lemma error_ref_cong:
  "connectionError s' = connectionError s \<Longrightarrow> errors_seen s' = errors_seen s \<Longrightarrow>
     error_ref s' = error_ref s"
  by (simp add: error_ref_def split: option.splits)

lemma toasts_deps: 
  "toasts (s\<lparr>dep_error := a, dep_token := b, dep_turn := c\<rparr>) = toasts s"
  by (simp add: toasts_def)

lemma render_after_updates:
  assumes "rendered s"
  shows "render dec (s\<lparr>playerState := Some st, connecting := c\<rparr>) =
           Inr ((if turn st \<noteq> turn_of (playerState s)
                 then turnEffect (s\<lparr>playerState := Some st, connecting := c\<rparr>)
                 else s\<lparr>playerState := Some st, connecting := c\<rparr>)
                \<lparr>dep_error := dep_error s, dep_token := dep_token s, dep_turn := turn st\<rparr>)"
proof -
  let ?t = "s\<lparr>playerState := Some st, connecting := c\<rparr>"
  have "error_ref ?t = error_ref s"
    by (rule error_ref_cong) simp_all
  with assms have e: "error_ref ?t = dep_error s" and k: "token s = dep_token s"
    and d: "dep_turn s = turn_of (playerState s)"
    by (simp_all add: rendered_def)
  show ?thesis
    by (simp add: render_def Let_def e k d turn_of_def)
qed

lemma toasts_render_after_updates:
  assumes "rendered s" and "sts \<noteq> []"
  shows "\<exists>s'. render dec (fold onUpdate sts s) = Inr s'
          \<and> playerState s' = Some (last sts)
          \<and> rendered s'
          \<and> toasts s' = toasts s @
              (if turn (last sts) \<noteq> turn_of (playerState s) \<and> truthy (turn (last sts)) then
                 [if turn (last sts) = user_id (user s)
                  then Toast ToastSuccess ''It's you turn''
                  else Toast ToastInfo
                         (''it is '' @ js_string (fst (getUserName (the (turn (last sts))) s))
                            @ '''s turn'')]
               else [])"
proof -
  let ?t = "s\<lparr>playerState := Some (last sts), connecting := Some False\<rparr>"
  let ?s' = "(if turn (last sts) \<noteq> turn_of (playerState s) then turnEffect ?t else ?t)
                \<lparr>dep_error := dep_error s, dep_token := dep_token s, dep_turn := turn (last sts)\<rparr>"
  have r: "render dec (fold onUpdate sts s) = Inr ?s'"
    using assms by (simp add: fold_onUpdate render_after_updates)
  have n: "fst (getUserName i ?t) = fst (getUserName i s)" for i
    by (rule getUserName_name_indep) simp
  have tt: "toasts ?t = toasts s"
    by (simp add: toasts_def)
  have ts: "toasts ?s' = toasts s @
              (if turn (last sts) \<noteq> turn_of (playerState s) \<and> truthy (turn (last sts)) then
                 [if turn (last sts) = user_id (user s)
                  then Toast ToastSuccess ''It's you turn''
                  else Toast ToastInfo
                         (''it is '' @ js_string (fst (getUserName (the (turn (last sts))) s))
                            @ '''s turn'')]
               else [])"
    by (simp add: toasts_deps toasts_turnEffect n tt turn_of_def)
  have p: "playerState ?s' = Some (last sts)"
    by (simp add: turnEffect_fields)
  from r have "rendered ?s'"
    by (rule render_rendered_after)
  with r ts p show ?thesis by blast
qed

text \<open>A failure stored since the last render is shown by the next one, once.\<close>

lemma toasts_render_after_error:
  assumes "rendered s"
  shows "\<exists>s'. render dec (onError e s) = Inr s' \<and> rendered s'
          \<and> toasts s' = toasts s @ [Toast ToastError (message e)]
          \<and> render dec s' = Inr s'"
proof -
  from assms have d: "dep_error s \<noteq> Some (Suc (errors_seen s))"
    by (auto simp: rendered_def error_ref_def split: option.splits)
  from assms have k: "dep_token s = token s" and u: "dep_turn s = turn_of (playerState s)"
    by (simp_all add: rendered_def)
  let ?s' = "(emit (Toast ToastError (message e)) (onError e s))
               \<lparr>dep_error := Some (Suc (errors_seen s)), dep_token := token s,
                 dep_turn := turn_of (playerState s)\<rparr>"
  have r: "render dec (onError e s) = Inr ?s'"
    using d k u by (simp add: render_def Let_def onError_def error_ref_def errorEffect_def)
  then have rr: "rendered ?s'"
    by (rule render_rendered_after)
  have t: "toasts ?s' = toasts s @ [Toast ToastError (message e)]"
    by (simp add: toasts_def emit_def onError_def is_toast_def)
  from r rr t render_rendered [OF rr] show ?thesis
    by blast
qed

subsection \<open>The outcomes of login\<close>

lemma login_settle_result:
  "fst (login_settle lo dec s) =
     (case lo of Inl e \<Rightarrow> Inr None
      | Inr tok \<Rightarrow> if tok = [] then Inr (Some tok)
                   else (case dec tok of Inl e \<Rightarrow> Inr None | Inr u \<Rightarrow> Inr (Some tok)))"
  by (simp add: login_settle_def login_try_def catch_log_def split: sum.splits)

lemma login_result:
  "fst (login lo dec s) =
     (if isLoginIn s then Inr None
      else (case lo of Inl e \<Rightarrow> Inr None
            | Inr tok \<Rightarrow> if tok = [] then Inr (Some tok)
                   else (case dec tok of Inl e \<Rightarrow> Inr None | Inr u \<Rightarrow> Inr (Some tok))))"
  by (simp add: login_def login_begin_def login_settle_result)

lemma login_ignored: "isLoginIn s \<Longrightarrow> login lo dec s = (Inr None, s)"
  by (simp add: login_def login_begin_def)

lemma login_failure:
  "\<not> isLoginIn s \<Longrightarrow> login (Inl e) dec s =
     (Inr None,
      s\<lparr>loggingIn := Some False, trace := trace s @ [LoginAnonymous, ConsoleError e]\<rparr>)"
  by (simp add: login_def login_begin_def login_settle_def login_try_def catch_log_def emit_def)

lemma login_success_state:
  "\<not> isLoginIn s \<Longrightarrow> tok \<noteq> [] \<Longrightarrow> dec tok = Inr u \<Longrightarrow>
     login (Inr tok) dec s =
       (Inr (Some tok),
        s\<lparr>token := Some tok, user := Some u,
          playerNameMapping := (playerNameMapping s)(uid u \<mapsto> u),
          loggingIn := Some False, trace := trace s @ [LoginAnonymous]\<rparr>)"
  by (simp add: login_def login_begin_def login_settle_def login_try_def catch_log_def emit_def)

lemma tokenEffect_after_login:
  "\<not> isLoginIn s \<Longrightarrow> tok \<noteq> [] \<Longrightarrow> dec tok = Inr u \<Longrightarrow>
     tokenEffect dec (snd (login (Inr tok) dec s)) = Inr (snd (login (Inr tok) dec s))"
  by (simp add: login_success_state tokenEffect_def)

lemma login_decode_failure:
  "\<not> isLoginIn s \<Longrightarrow> tok \<noteq> [] \<Longrightarrow> dec tok = Inl e \<Longrightarrow>
     login (Inr tok) dec s =
       (Inr None,
        s\<lparr>loggingIn := Some False, trace := trace s @ [LoginAnonymous, ConsoleError e]\<rparr>)"
  by (simp add: login_def login_begin_def login_settle_def login_try_def catch_log_def emit_def)

lemma login_flags:
  "\<not> isLoginIn s \<Longrightarrow>
     \<not> isLoginIn (snd (login lo dec s)) \<and> loggingIn (snd (login lo dec s)) = Some False"
  by (simp add: login_def login_begin_def login_settle_def split: prod.splits)

subsection \<open>The concrete states\<close>

lemma ex_logged_in_eq:
  "ex_logged_in = init_ctx\<lparr>token := Some ''tok'',
     user := Some \<lparr>uid = ''id-tok'', uname = ''name-tok''\<rparr>,
     playerNameMapping := [''id-tok'' \<mapsto> \<lparr>uid = ''id-tok'', uname = ''name-tok''\<rparr>],
     loggingIn := Some False, trace := [LoginAnonymous]\<rparr>"
  by (simp add: ex_logged_in_def login_def login_begin_def login_settle_def login_try_def
      catch_log_def ex_decode_def init_ctx_def emit_def)

lemma ex_connected_eq:
  "ex_connected = ex_logged_in\<lparr>connecting := Some True, connection := Some 0,
     trace := [LoginAnonymous, Connect (Some ''tok'') ''ROOM1'' 0]\<rparr>"
  by (simp add: ex_connected_def connect_def emit_def ex_logged_in_eq init_ctx_def)

lemma ex_playing_eq:
  "ex_playing = ex_connected\<lparr>playerState := Some (ex_snap (Some ''bob'')),
     connecting := Some False,
     trace := [LoginAnonymous, Connect (Some ''tok'') ''ROOM1'' 0, LookupUser ''bob'',
               Toast ToastInfo ''it is bob's turn''],
     dep_token := Some ''tok'', dep_turn := Some ''bob''\<rparr>"
  by (simp add: ex_playing_def fire_update_def onUpdate_eq render_def Let_def error_ref_def
        turnEffect_def getUserName_def object_prototype_def js_string_def tokenEffect_def
        turn_of_def user_id_def ex_snap_def ex_decode_def emit_def
        ex_connected_eq ex_logged_in_eq init_ctx_def)

lemma ex_playing_fields:
  "playerState ex_playing = Some (ex_snap (Some ''bob''))"
  "connection ex_playing = Some 0"
  "user ex_playing = Some \<lparr>uid = ''id-tok'', uname = ''name-tok''\<rparr>"
  "token ex_playing = Some ''tok''"
  "connectionError ex_playing = None"
  "playerNameMapping ex_playing = [''id-tok'' \<mapsto> \<lparr>uid = ''id-tok'', uname = ''name-tok''\<rparr>]"
  "rendered ex_playing"
  by (simp_all add: ex_playing_eq ex_connected_eq ex_logged_in_eq init_ctx_def rendered_def
        error_ref_def turn_of_def ex_snap_def)

lemma ex_reconnect_eq:
  "fst (run ex_decode ex_reconnect (init_ctx, 0)) =
     init_ctx\<lparr>connecting := Some True, connection := Some 1,
       trace := [Connect None ''ROOM1'' 0, ConnDisconnect 0, Connect None ''ROOM2'' 1]\<rparr>"
  by (simp add: ex_reconnect_def connect_def emit_def init_ctx_def disconnect_def
        setPlayerState_None)

subsection \<open>The login guard along executions\<close>

lemma login_isLoginIn: "isLoginIn (snd (login lo dec s)) = isLoginIn s"
  by (simp add: login_def login_begin_def login_settle_def split: prod.splits)

lemma createGame_isLoginIn: "isLoginIn (snd (createGame lo dec co dflt s)) = isLoginIn s"
proof (cases "truthy (token s)")
  case True
  then show ?thesis
    by (simp add: createGame_def create_def emit_def split: sum.splits)
next
  case False
  obtain r s1 where l: "login lo dec s = (r, s1)"
    by (cases "login lo dec s")
  then have "isLoginIn s1 = isLoginIn s"
    using login_isLoginIn [of lo dec s] by simp
  with False l show ?thesis
    by (simp add: createGame_def create_def emit_def split: sum.splits)
qed

lemma other_isLoginIn:
  "isLoginIn (snd (connect c g s)) = isLoginIn s"
  "isLoginIn (fire_update h st s) = isLoginIn s"
  "isLoginIn (fire_error h e s) = isLoginIn s"
  "isLoginIn (disconnect s) = isLoginIn s"
  "isLoginIn (endGame s) = isLoginIn s"
  "isLoginIn (snd (getUserName i s)) = isLoginIn s"
  "isLoginIn (lookup_resolved i r s) = isLoginIn s"
  "isLoginIn (snd (handled_action a prom s)) = isLoginIn s"
  "isLoginIn (snd (joinGame c prom g s)) = isLoginIn s"
  by (simp_all add: connect_def fire_update_def fire_error_def onUpdate_fields onError_def
        disconnect_def endGame_def setPlayerState_def getUserName_def lookup_resolved_def
        handled_action_def HandleConnection_def joinGame_def emit_def Let_def
        split: sum.splits option.splits response.splits prod.splits)

lemma step_inflight:
  assumes "step dec ev (s, n) = (s', n')" and "n \<le> 1" and "isLoginIn s \<longleftrightarrow> n = 1"
  shows "n' \<le> 1 \<and> (isLoginIn s' \<longleftrightarrow> n' = 1)"
  using assms
  by (cases ev)
     (auto simp: other_isLoginIn createGame_isLoginIn login_begin_def login_settle_def
        emit_def startGame_def playCard_def drawCard_def render_fields
        split: if_splits prod.splits sum.splits)

lemma run_inflight:
  "run dec evs (s, n) = (s', n') \<Longrightarrow> n \<le> 1 \<Longrightarrow> (isLoginIn s \<longleftrightarrow> n = 1) \<Longrightarrow>
     n' \<le> 1 \<and> (isLoginIn s' \<longleftrightarrow> n' = 1)"
proof (induction evs arbitrary: s n)
  case Nil
  then show ?case by simp
next
  case (Cons ev evs)
  obtain s1 n1 where st: "step dec ev (s, n) = (s1, n1)"
    by (cases "step dec ev (s, n)")
  with Cons.prems have inv: "n1 \<le> 1 \<and> (isLoginIn s1 \<longleftrightarrow> n1 = 1)"
    using step_inflight by blast
  from Cons.prems(1) st have "run dec evs (s1, n1) = (s', n')" by simp
  with inv show ?case using Cons.IH by blast
qed

subsection \<open>Cached names along executions\<close>










subsection \<open>Renders of a mounted provider succeed\<close>

text \<open>
  The stored token is the one the provider mounted with or one that \<open>login\<close> stored after
  decoding it. So if the token decodes when the provider has mounted, it does at every
  later render, and no render of the execution throws.
\<close>

lemma other_token:
  "token (snd (connect c g s)) = token s"
  "token (fire_update h st s) = token s"
  "token (fire_error h e s) = token s"
  "token (disconnect s) = token s"
  "token (endGame s) = token s"
  "token (snd (getUserName i s)) = token s"
  "token (lookup_resolved i r s) = token s"
  "token (snd (handled_action a prom s)) = token s"
  "token (snd (joinGame c prom g s)) = token s"
  "token (snd (login_begin s)) = token s"
  by (simp_all add: connect_def fire_update_def fire_error_def onUpdate_eq onError_def
        disconnect_def endGame_def setPlayerState_def getUserName_def lookup_resolved_def
        handled_action_def HandleConnection_def joinGame_def login_begin_def emit_def Let_def
        split: sum.splits option.splits response.splits prod.splits)

lemma login_settle_token:
  "token (snd (login_settle lo dec s)) = token s
   \<or> \<not> truthy (token (snd (login_settle lo dec s)))
   \<or> (\<exists>u. dec (the (token (snd (login_settle lo dec s)))) = Inr u)"
  by (auto simp: login_settle_def login_try_def catch_log_def emit_def split: sum.splits)

lemma login_token:
  "token (snd (login lo dec s)) = token s
   \<or> \<not> truthy (token (snd (login lo dec s)))
   \<or> (\<exists>u. dec (the (token (snd (login lo dec s)))) = Inr u)"
proof -
  obtain r s1 where b: "login_begin s = (r, s1)"
    by (cases "login_begin s")
  then have t: "token s1 = token s"
    using other_token(10) [of s] by simp
  from b t login_settle_token [of lo dec s1] show ?thesis
    by (cases r) (auto simp: login_def)
qed

lemma createGame_token:
  "token (snd (createGame lo dec co dflt s)) = token (snd (login lo dec s))
   \<or> token (snd (createGame lo dec co dflt s)) = token s"
  by (cases "login lo dec s")
     (auto simp: createGame_def create_def emit_def split: sum.splits)

lemma step_token_decodes:
  assumes "truthy (token s) \<longrightarrow> (\<exists>u. dec (the (token s)) = Inr u)"
    and "step dec ev (s, n) = (s', n')"
  shows "truthy (token s') \<longrightarrow> (\<exists>u. dec (the (token s')) = Inr u)"
proof (cases ev)
  case CallLogin
  with assms show ?thesis
    using other_token(10) [of s] by (auto split: prod.splits started.splits)
next
  case (LoginSettles lo)
  with assms show ?thesis
    using login_settle_token [of lo dec s] by (auto split: if_splits)
next
  case (CallCreateGame lo co dflt)
  with assms show ?thesis
    using login_token [of lo dec s] createGame_token [of lo dec co dflt s] by auto
next
  case Render
  with assms show ?thesis
    using render_fields(1) [of dec s] by (auto split: sum.splits)
qed (use assms in \<open>auto simp: other_token startGame_def playCard_def drawCard_def
        split: prod.splits started.splits\<close>)

lemma run_token_decodes:
  "truthy (token s) \<longrightarrow> (\<exists>u. dec (the (token s)) = Inr u) \<Longrightarrow>
   run dec evs (s, n) = (s', n') \<Longrightarrow>
   truthy (token s') \<longrightarrow> (\<exists>u. dec (the (token s')) = Inr u)"
proof (induction evs arbitrary: s n)
  case Nil
  then show ?case by simp
next
  case (Cons ev evs)
  obtain s1 n1 where st: "step dec ev (s, n) = (s1, n1)"
    by (cases "step dec ev (s, n)")
  with Cons.prems(1) have "truthy (token s1) \<longrightarrow> (\<exists>u. dec (the (token s1)) = Inr u)"
    using step_token_decodes by blast
  moreover from Cons.prems(2) st have "run dec evs (s1, n1) = (s', n')" by simp
  ultimately show ?case using Cons.IH by blast
qed

lemma render_total:
  "truthy (token s) \<longrightarrow> (\<exists>u. dec (the (token s)) = Inr u) \<Longrightarrow> \<exists>s'. render dec s = Inr s'"
  by (auto simp: render_def Let_def tokenEffect_def turnEffect_fields errorEffect_fields)

section \<open>The claims\<close>

subsection \<open>Callbacks of a replaced connection\<close>

text \<open>
  C1, as the code has it. The callbacks handed to \<open>client.connect\<close> do not compare
  connections: whenever the transport calls the on-state-update callback registered for a
  connection \<open>h\<close>, the snapshot it carries becomes \<open>playerState\<close>, and whenever it calls the
  on-failure callback registered for \<open>h\<close>, the failure becomes \<open>connectionError\<close>. This holds
  for every connection \<open>client.connect\<close> has returned, the stored one or a replaced one.
\<close>

theorem stale_callback_writes:
  "h \<in> set (registered (trace s)) \<Longrightarrow>
     playerState (fire_update h st s) = Some st
     \<and> connectionError (fire_error h e s) = Some e"
  by (simp add: fire_update_def fire_error_def onUpdate_fields onError_def)

text \<open>
  After connect, disconnect, connect the stored connection is 1, and the callbacks of
  connection 0 still write both fields.
\<close>

theorem stale_callback_writes_witness:
  "0 \<in> set (registered (trace (fst (run ex_decode ex_reconnect (init_ctx, 0)))))
   \<and> connection (fst (run ex_decode ex_reconnect (init_ctx, 0))) = Some 1
   \<and> playerState (fire_update 0 (ex_snap (Some ''bob''))
         (fst (run ex_decode ex_reconnect (init_ctx, 0))))
       = Some (ex_snap (Some ''bob''))
   \<and> connectionError (fire_error 0 ex_failure (fst (run ex_decode ex_reconnect (init_ctx, 0))))
       = Some ex_failure"
  using stale_callback_writes [of 0 "fst (run ex_decode ex_reconnect (init_ctx, 0))"
          "ex_snap (Some ''bob'')" ex_failure]
  by (simp add: ex_reconnect_eq)

text \<open>
  Two consecutive calls of \<open>connect\<close>: the stored connection is 1 and both fields are
  empty; then a callback of connection 0 fires and the field is written.
\<close>

theorem stale_callback_counterexample:
  "connection (fst (run ex_decode ex_two_connects (init_ctx, 0))) = Some 1
   \<and> playerState (fst (run ex_decode ex_two_connects (init_ctx, 0))) = None
   \<and> connectionError (fst (run ex_decode ex_two_connects (init_ctx, 0))) = None
   \<and> playerState (fst (run ex_decode (ex_two_connects @ [Update 0 (ex_snap (Some ''bob''))])
                         (init_ctx, 0)))
       = Some (ex_snap (Some ''bob''))
   \<and> connectionError (fst (run ex_decode (ex_two_connects @ [Failure 0 ex_failure])
                             (init_ctx, 0)))
       = Some ex_failure"
  by (simp add: ex_two_connects_def connect_def emit_def init_ctx_def
        fire_update_def fire_error_def onUpdate_fields onError_def)

subsection \<open>The turn notification\<close>

text \<open>
  C2, as the code has it. Snapshots are stored as they arrive and show nothing by
  themselves; the notification belongs to the render. Take a rendered state and the
  snapshots that arrive before the next render, one or more. That render shows exactly
  one notification if the turn of the last of them differs from the turn that was
  rendered before and is truthy (defined and not the empty string), and none otherwise:
  none for a turn that becomes absent or empty, none for differences in other fields, none
  for the snapshots before the last, whose turns are never compared. The notification is
  "It's you turn" when the new turn is the current user's id, and otherwise names the
  player by what \<open>getUserName\<close> returns.
\<close>

theorem turn_notification:
  "rendered s \<Longrightarrow> sts \<noteq> [] \<Longrightarrow>
     toasts (fold onUpdate sts s) = toasts s
     \<and> playerState (fold onUpdate sts s) = Some (last sts)
     \<and> (\<exists>s'. render dec (fold onUpdate sts s) = Inr s'
            \<and> playerState s' = Some (last sts)
            \<and> rendered s'
            \<and> toasts s' = toasts s @
                (if turn (last sts) \<noteq> turn_of (playerState s) \<and> truthy (turn (last sts)) then
                   [if turn (last sts) = user_id (user s)
                    then Toast ToastSuccess ''It's you turn''
                    else Toast ToastInfo
                           (''it is '' @ js_string (fst (getUserName (the (turn (last sts))) s))
                              @ '''s turn'')]
                 else []))"
proof -
  assume r: "rendered s" and n: "sts \<noteq> []"
  have a: "toasts (fold onUpdate sts s) = toasts s"
    using n by (simp add: fold_onUpdate toasts_def)
  have b: "playerState (fold onUpdate sts s) = Some (last sts)"
    using n by (simp add: fold_onUpdate)
  from a b toasts_render_after_updates [OF r n, of dec] show ?thesis
    by blast
qed

text \<open>
  From the rendered snapshot with bob's turn: the turn passes to the current user, or to
  carol (whose name is not cached), or stays while another field changes; and two
  snapshots arrive before the next render, the turn passing to carol and on to the
  current user.
\<close>

theorem turn_notification_witness:
  "rendered ex_playing
   \<and> playerState ex_playing = Some (ex_snap (Some ''bob''))
   \<and> (\<exists>s'. render ex_decode (onUpdate (ex_snap (Some ''id-tok'')) ex_playing) = Inr s'
          \<and> toasts s' = toasts ex_playing @ [Toast ToastSuccess ''It's you turn''])
   \<and> (\<exists>s'. render ex_decode (onUpdate (ex_snap (Some ''carol'')) ex_playing) = Inr s'
          \<and> toasts s' = toasts ex_playing @ [Toast ToastInfo ''it is carol's turn''])
   \<and> (\<exists>s'. render ex_decode
               (onUpdate ((ex_snap (Some ''bob''))\<lparr>detail := ''round 2''\<rparr>) ex_playing) = Inr s'
          \<and> toasts s' = toasts ex_playing)
   \<and> (\<exists>s'. render ex_decode
               (onUpdate (ex_snap (Some ''id-tok''))
                  (onUpdate (ex_snap (Some ''carol'')) ex_playing)) = Inr s'
          \<and> toasts s' = toasts ex_playing @ [Toast ToastSuccess ''It's you turn''])"
proof -
  have r: "rendered ex_playing"
    by (rule ex_playing_fields)
  have n: "fst (getUserName ''carol'' ex_playing) = Some ''carol''"
    by (simp add: getUserName_def ex_playing_fields object_prototype_def)
  have f: "turn_of (playerState ex_playing) = Some ''bob''"
          "user_id (user ex_playing) = Some ''id-tok''"
    by (simp_all add: ex_playing_fields turn_of_def user_id_def ex_snap_def)
  have w1: "\<exists>s'. render ex_decode (onUpdate (ex_snap (Some ''id-tok'')) ex_playing) = Inr s'
          \<and> toasts s' = toasts ex_playing @ [Toast ToastSuccess ''It's you turn'']"
    using turn_notification [OF r, of "[ex_snap (Some ''id-tok'')]" ex_decode] f
    by (auto simp: ex_snap_def)
  have w2: "\<exists>s'. render ex_decode (onUpdate (ex_snap (Some ''carol'')) ex_playing) = Inr s'
          \<and> toasts s' = toasts ex_playing @ [Toast ToastInfo ''it is carol's turn'']"
    using turn_notification [OF r, of "[ex_snap (Some ''carol'')]" ex_decode] f n
    by (auto simp: ex_snap_def js_string_def)
  have w3: "\<exists>s'. render ex_decode
               (onUpdate ((ex_snap (Some ''bob''))\<lparr>detail := ''round 2''\<rparr>) ex_playing) = Inr s'
          \<and> toasts s' = toasts ex_playing"
    using turn_notification [OF r, of "[(ex_snap (Some ''bob''))\<lparr>detail := ''round 2''\<rparr>]"
            ex_decode] f
    by (auto simp: ex_snap_def)
  have w4: "\<exists>s'. render ex_decode
               (onUpdate (ex_snap (Some ''id-tok''))
                  (onUpdate (ex_snap (Some ''carol'')) ex_playing)) = Inr s'
          \<and> toasts s' = toasts ex_playing @ [Toast ToastSuccess ''It's you turn'']"
    using turn_notification [OF r, of "[ex_snap (Some ''carol''), ex_snap (Some ''id-tok'')]"
            ex_decode] f
    by (auto simp: ex_snap_def)
  from r w1 w2 w3 w4 show ?thesis
    by (simp add: ex_playing_fields)
qed

text \<open>
  Two consecutive snapshots whose turns differ, and no notification. First: after the
  rendered snapshot with bob's turn comes one with no turn; the render runs the effect
  (the remembered turn becomes absent) and the trace stays as it was. Second: after it
  come a snapshot with carol's turn and one with bob's turn before the next render; that
  render changes nothing at all.
\<close>

theorem turn_notification_counterexample:
  "playerState ex_playing = Some (ex_snap (Some ''bob''))
   \<and> rendered ex_playing
   \<and> turn (ex_snap None) \<noteq> turn (ex_snap (Some ''bob''))
   \<and> render ex_decode (onUpdate (ex_snap None) ex_playing)
       = Inr ((onUpdate (ex_snap None) ex_playing)\<lparr>dep_turn := None\<rparr>)
   \<and> trace (onUpdate (ex_snap None) ex_playing) = trace ex_playing
   \<and> turn (ex_snap (Some ''carol'')) \<noteq> turn (ex_snap (Some ''bob''))
   \<and> render ex_decode
         (onUpdate (ex_snap (Some ''bob'')) (onUpdate (ex_snap (Some ''carol'')) ex_playing))
       = Inr (onUpdate (ex_snap (Some ''bob'')) (onUpdate (ex_snap (Some ''carol'')) ex_playing))
   \<and> trace (onUpdate (ex_snap (Some ''bob'')) (onUpdate (ex_snap (Some ''carol'')) ex_playing))
       = trace ex_playing"
  by (simp add: ex_playing_eq ex_connected_eq ex_logged_in_eq init_ctx_def onUpdate_eq
        render_def rendered_def Let_def error_ref_def turnEffect_def turn_of_def ex_snap_def)

subsection \<open>Failures at the context boundary\<close>

text \<open>
  C3, as the code has it. \<open>login\<close> never throws: whatever \<open>loginAnonymous\<close> and the token
  decoder do, it returns a value and leaves the in-flight flag unset and \<open>loggingIn\<close> false.
  A login request that fails, and a token that the decoder rejects, are caught: the
  exception is logged to the console, the result is absent, and nothing is stored, neither
  token nor user nor name. A call made while a login is in flight returns absent and
  changes nothing. \<open>startGame\<close>, \<open>playCard\<close> and \<open>drawCard\<close> return normally whenever the
  action's promise resolves, and a failure response is shown as exactly one error
  notification.
\<close>

theorem failures_converted:
  "(\<exists>v. fst (login lo dec s) = Inr v)
   \<and> (isLoginIn s \<longrightarrow> login lo dec s = (Inr None, s))
   \<and> (\<not> isLoginIn s \<longrightarrow>
        \<not> isLoginIn (snd (login lo dec s)) \<and> loggingIn (snd (login lo dec s)) = Some False)
   \<and> (\<not> isLoginIn s \<longrightarrow>
        login (Inl e) dec s =
          (Inr None,
           s\<lparr>loggingIn := Some False, trace := trace s @ [LoginAnonymous, ConsoleError e]\<rparr>))
   \<and> (\<not> isLoginIn s \<and> tok \<noteq> [] \<and> dec tok = Inl e \<longrightarrow>
        login (Inr tok) dec s =
          (Inr None,
           s\<lparr>loggingIn := Some False, trace := trace s @ [LoginAnonymous, ConsoleError e]\<rparr>))
   \<and> fst (startGame (Inr r) s) = Inr ()
   \<and> fst (playCard c (Inr r) s) = Inr ()
   \<and> fst (drawCard (Inr r) s) = Inr ()
   \<and> (connection s \<noteq> None \<longrightarrow>
        toasts (snd (startGame (Inr (RError m)) s)) = toasts s @ [Toast ToastError m]
        \<and> toasts (snd (playCard c (Inr (RError m)) s)) = toasts s @ [Toast ToastError m]
        \<and> toasts (snd (drawCard (Inr (RError m)) s)) = toasts s @ [Toast ToastError m])"
proof -
  have never: "\<exists>v. fst (login lo dec s) = Inr v"
    by (simp add: login_result split: sum.splits)
  have dropped: "isLoginIn s \<longrightarrow> login lo dec s = (Inr None, s)"
    by (simp add: login_ignored)
  have flags: "\<not> isLoginIn s \<longrightarrow>
        \<not> isLoginIn (snd (login lo dec s)) \<and> loggingIn (snd (login lo dec s)) = Some False"
    using login_flags [of s lo dec] by blast
  have request: "\<not> isLoginIn s \<longrightarrow>
        login (Inl e) dec s =
          (Inr None,
           s\<lparr>loggingIn := Some False, trace := trace s @ [LoginAnonymous, ConsoleError e]\<rparr>)"
    by (simp add: login_failure)
  have decoder: "\<not> isLoginIn s \<and> tok \<noteq> [] \<and> dec tok = Inl e \<longrightarrow>
        login (Inr tok) dec s =
          (Inr None,
           s\<lparr>loggingIn := Some False, trace := trace s @ [LoginAnonymous, ConsoleError e]\<rparr>)"
    by (simp add: login_decode_failure)
  have actions: "fst (startGame (Inr r) s) = Inr ()
     \<and> fst (playCard c (Inr r) s) = Inr ()
     \<and> fst (drawCard (Inr r) s) = Inr ()
     \<and> (connection s \<noteq> None \<longrightarrow>
        toasts (snd (startGame (Inr (RError m)) s)) = toasts s @ [Toast ToastError m]
        \<and> toasts (snd (playCard c (Inr (RError m)) s)) = toasts s @ [Toast ToastError m]
        \<and> toasts (snd (drawCard (Inr (RError m)) s)) = toasts s @ [Toast ToastError m])"
    by (simp add: startGame_def playCard_def drawCard_def handled_action_result
          handled_action_toasts split: option.splits)
  from never dropped flags request decoder actions show ?thesis
    by blast
qed

text \<open>
  A login while offline, a login whose token the decoder rejects, a login called while
  one is in flight, and a rejected card while playing.
\<close>

theorem failures_converted_witness:
  "\<not> isLoginIn init_ctx
   \<and> login (Inl ''offline'') ex_decode init_ctx
       = (Inr None, init_ctx\<lparr>loggingIn := Some False,
                             trace := [LoginAnonymous, ConsoleError ''offline'']\<rparr>)
   \<and> ex_bad_decode ''tok'' = Inl ''malformed token''
   \<and> login (Inr ''tok'') ex_bad_decode init_ctx
       = (Inr None, init_ctx\<lparr>loggingIn := Some False,
                             trace := [LoginAnonymous, ConsoleError ''malformed token'']\<rparr>)
   \<and> isLoginIn (snd (login_begin init_ctx))
   \<and> login (Inr ''tok'') ex_decode (snd (login_begin init_ctx))
       = (Inr None, snd (login_begin init_ctx))
   \<and> connection ex_playing \<noteq> None
   \<and> fst (playCard ''red 7'' (Inr (RError ''not your turn'')) ex_playing) = Inr ()
   \<and> toasts (snd (playCard ''red 7'' (Inr (RError ''not your turn'')) ex_playing))
       = toasts ex_playing @ [Toast ToastError ''not your turn'']"
proof -
  have i: "\<not> isLoginIn init_ctx" "trace init_ctx = []"
    by (simp_all add: init_ctx_def)
  have b: "ex_bad_decode ''tok'' = Inl ''malformed token''"
    by (simp add: ex_bad_decode_def)
  have g: "isLoginIn (snd (login_begin init_ctx))"
    by (simp add: login_begin_def emit_def init_ctx_def)
  have p: "connection ex_playing \<noteq> None"
    by (simp add: ex_playing_fields)
  show ?thesis
    using failures_converted [of "Inl ''offline''" ex_decode init_ctx "''offline''" "''tok''"
            ROk "''red 7''" "''not your turn''"]
          failures_converted [of "Inr ''tok''" ex_bad_decode init_ctx "''malformed token''"
            "''tok''" ROk "''red 7''" "''not your turn''"]
          failures_converted [of "Inr ''tok''" ex_decode "snd (login_begin init_ctx)"
            "''offline''" "''tok''" ROk "''red 7''" "''not your turn''"]
          failures_converted [of "Inr ''tok''" ex_decode ex_playing "''offline''" "''tok''"
            "RError ''not your turn''" "''red 7''" "''not your turn''"]
          i b g p
    by simp
qed

text \<open>
  With a token stored, \<open>createGame\<close> awaits \<open>client.create\<close> outside any \<open>catch\<close>: when that
  request is rejected, so is the promise \<open>createGame\<close> returned.
\<close>

theorem failures_converted_counterexample:
  "fst (createGame (Inr ''tok'') ex_decode (Inl ''create failed'') ''{}'' ex_token_only)
     = Inl ''create failed''"
  by (simp add: createGame_def create_def ex_token_only_def init_ctx_def)

subsection \<open>joinGame\<close>

text \<open>
  C4, on the input where it fails. \<open>joinGame("ROOM1")\<close> with a token stored, \<open>client.connect\<close>
  returning connection 0 and the join action answering with the failure "room is full":
  \<open>joinGame\<close> returns normally and the connection stays stored, but the trace holds the
  two calls to the transport and no notification. The same failure response given to
  \<open>startGame\<close> on that connection is shown.
\<close>

theorem joinGame_failure_silent:
  "joinGame (Inr 0) (Inr (RError ''room is full'')) ''ROOM1'' ex_token_only =
     (Inr (), ex_token_only\<lparr>connecting := Some True, connection := Some 0,
        trace := [Connect (Some ''tok'') ''ROOM1'' 0, Act 0 JoinGame]\<rparr>)
   \<and> toasts (snd (joinGame (Inr 0) (Inr (RError ''room is full'')) ''ROOM1'' ex_token_only)) = []
   \<and> toasts (snd (startGame (Inr (RError ''room is full''))
         (snd (joinGame (Inr 0) (Inr ROk) ''ROOM1'' ex_token_only))))
       = [Toast ToastError ''room is full'']"
  by (simp add: joinGame_def connect_def emit_def ex_token_only_def init_ctx_def toasts_def
        is_toast_def startGame_def handled_action_def HandleConnection_def)

subsection \<open>createGame\<close>

text \<open>
  C5. With a token stored (a truthy one, as the code tests it), \<open>createGame\<close> issues one
  create-room request with that token and the default payload and returns the game id the
  request resolves with. With no token, and no login in flight, it calls \<open>login\<close>; when the
  login yields a token, the create-room request is issued with that token and the default
  payload and its game id is returned; when the login request fails, \<open>createGame\<close> returns
  absent, throws nothing and issues no create-room request. In general, with no token:
  whenever the call of \<open>login\<close> returns a token, the create-room request follows with that
  token and the default payload, and whenever it returns absent, so does \<open>createGame\<close>,
  with nothing done after the login.
\<close>

theorem createGame_spec:
  "(truthy (token s) \<longrightarrow>
      createGame lo dec (Inr gameId) dflt s =
        (Inr (Some gameId), s\<lparr>trace := trace s @ [Create (the (token s)) dflt]\<rparr>))
   \<and> (\<not> truthy (token s) \<and> \<not> isLoginIn s \<and> tok \<noteq> [] \<and> dec tok = Inr u \<longrightarrow>
        fst (createGame (Inr tok) dec (Inr gameId) dflt s) = Inr (Some gameId)
        \<and> trace (snd (createGame (Inr tok) dec (Inr gameId) dflt s)) =
            trace s @ [LoginAnonymous, Create tok dflt])
   \<and> (\<not> truthy (token s) \<longrightarrow>
        fst (createGame (Inl e) dec co dflt s) = Inr None
        \<and> trace (snd (createGame (Inl e) dec co dflt s)) =
            trace s @ (if isLoginIn s then [] else [LoginAnonymous, ConsoleError e]))
   \<and> (\<not> truthy (token s) \<and> fst (login lo dec s) = Inr (Some t) \<and> t \<noteq> [] \<longrightarrow>
        createGame lo dec (Inr gameId) dflt s =
          (Inr (Some gameId),
           (snd (login lo dec s))\<lparr>trace := trace (snd (login lo dec s)) @ [Create t dflt]\<rparr>))
   \<and> (\<not> truthy (token s) \<and> fst (login lo dec s) = Inr None \<longrightarrow>
        createGame lo dec co dflt s = (Inr None, snd (login lo dec s)))"
proof (intro conjI impI)
  assume "\<not> truthy (token s) \<and> fst (login lo dec s) = Inr (Some t) \<and> t \<noteq> []"
  then show "createGame lo dec (Inr gameId) dflt s =
          (Inr (Some gameId),
           (snd (login lo dec s))\<lparr>trace := trace (snd (login lo dec s)) @ [Create t dflt]\<rparr>)"
    by (cases "login lo dec s") (auto simp: createGame_def create_def emit_def)
next
  assume "\<not> truthy (token s) \<and> fst (login lo dec s) = Inr None"
  then show "createGame lo dec co dflt s = (Inr None, snd (login lo dec s))"
    by (cases "login lo dec s") (auto simp: createGame_def)
next
  assume "truthy (token s)"
  then show "createGame lo dec (Inr gameId) dflt s =
        (Inr (Some gameId), s\<lparr>trace := trace s @ [Create (the (token s)) dflt]\<rparr>)"
    by (simp add: createGame_def create_def emit_def)
next
  assume h: "\<not> truthy (token s) \<and> \<not> isLoginIn s \<and> tok \<noteq> [] \<and> dec tok = Inr u"
  then have l: "login (Inr tok) dec s =
       (Inr (Some tok),
        s\<lparr>token := Some tok, user := Some u,
          playerNameMapping := (playerNameMapping s)(uid u \<mapsto> u),
          loggingIn := Some False, trace := trace s @ [LoginAnonymous]\<rparr>)"
    by (simp add: login_success_state)
  from h l show "fst (createGame (Inr tok) dec (Inr gameId) dflt s) = Inr (Some gameId)"
    by (simp add: createGame_def create_def)
  from h l show "trace (snd (createGame (Inr tok) dec (Inr gameId) dflt s)) =
            trace s @ [LoginAnonymous, Create tok dflt]"
    by (simp add: createGame_def create_def emit_def)
next
  assume h: "\<not> truthy (token s)"
  then show "fst (createGame (Inl e) dec co dflt s) = Inr None"
    by (cases "isLoginIn s") (simp_all add: createGame_def login_ignored login_failure)
  from h show "trace (snd (createGame (Inl e) dec co dflt s)) =
            trace s @ (if isLoginIn s then [] else [LoginAnonymous, ConsoleError e])"
    by (cases "isLoginIn s") (simp_all add: createGame_def login_ignored login_failure)
qed

text \<open>Creating a game when logged in, when not logged in, and when the login fails.\<close>

theorem createGame_spec_witness:
  "truthy (token ex_logged_in)
   \<and> createGame (Inl ''unused'') ex_decode (Inr ''ROOM1'') ''{}'' ex_logged_in =
        (Inr (Some ''ROOM1''), ex_logged_in\<lparr>trace := [LoginAnonymous, Create ''tok'' ''{}'']\<rparr>)
   \<and> \<not> truthy (token init_ctx) \<and> \<not> isLoginIn init_ctx
   \<and> ex_decode ''tok'' = Inr \<lparr>uid = ''id-tok'', uname = ''name-tok''\<rparr>
   \<and> fst (createGame (Inr ''tok'') ex_decode (Inr ''ROOM1'') ''{}'' init_ctx) = Inr (Some ''ROOM1'')
   \<and> trace (snd (createGame (Inr ''tok'') ex_decode (Inr ''ROOM1'') ''{}'' init_ctx)) =
        [LoginAnonymous, Create ''tok'' ''{}'']
   \<and> fst (createGame (Inl ''offline'') ex_decode (Inr ''ROOM1'') ''{}'' init_ctx) = Inr None
   \<and> trace (snd (createGame (Inl ''offline'') ex_decode (Inr ''ROOM1'') ''{}'' init_ctx)) =
        [LoginAnonymous, ConsoleError ''offline'']"
  using createGame_spec [of ex_logged_in "Inl ''unused''" ex_decode "''ROOM1''" "''{}''"]
        createGame_spec [of init_ctx _ ex_decode "''ROOM1''" "''{}''" "''tok''"
                            "\<lparr>uid = ''id-tok'', uname = ''name-tok''\<rparr>" "''offline''"
                            "Inr ''ROOM1''"]
  by (simp add: ex_logged_in_eq init_ctx_def ex_decode_def)

subsection \<open>getUserName\<close>




subsection \<open>Reentrant login\<close>

text \<open>
  C7. Take any execution from a state with the guard \<open>isLoginIn\<close> unset and no request in
  flight. At most one \<open>loginAnonymous\<close> request is in flight at its end, and the guard is
  set exactly while one is. While one is in flight, a further call of \<open>login\<close> returns
  absent at once, issues no request and leaves the state as it was: it is dropped, not
  queued. While none is in flight, two calls of \<open>login\<close> made one after the other, before
  the request settles, issue exactly one \<open>loginAnonymous\<close> request.
\<close>

theorem login_reentrant:
  "\<not> isLoginIn s0 \<Longrightarrow> run dec evs (s0, 0) = (s, n) \<Longrightarrow>
     n \<le> 1 \<and> (isLoginIn s \<longleftrightarrow> n = 1)
     \<and> (n = 1 \<longrightarrow> login_begin s = (Returned None, s) \<and> step dec CallLogin (s, n) = (s, n))
     \<and> (n = 0 \<longrightarrow>
          login_requests (fst (run dec [CallLogin, CallLogin] (s, n))) = login_requests s + 1
          \<and> snd (run dec [CallLogin, CallLogin] (s, n)) = 1)"
proof -
  assume a: "\<not> isLoginIn s0" and r: "run dec evs (s0, 0) = (s, n)"
  have inv: "n \<le> 1 \<and> (isLoginIn s \<longleftrightarrow> n = 1)"
    using run_inflight [OF r] a by simp
  have busy: "n = 1 \<longrightarrow> login_begin s = (Returned None, s) \<and> step dec CallLogin (s, n) = (s, n)"
    using inv by (simp add: login_begin_def)
  have idle: "n = 0 \<longrightarrow>
          login_requests (fst (run dec [CallLogin, CallLogin] (s, n))) = login_requests s + 1
          \<and> snd (run dec [CallLogin, CallLogin] (s, n)) = 1"
    using inv by (simp add: login_begin_def emit_def login_requests_def)
  from inv busy idle show ?thesis by blast
qed

text \<open>One call from the initial state, then a second one; and two calls from it.\<close>

theorem login_reentrant_witness:
  "\<not> isLoginIn init_ctx
   \<and> run ex_decode [CallLogin] (init_ctx, 0) =
       (init_ctx\<lparr>loggingIn := Some True, isLoginIn := True, trace := [LoginAnonymous]\<rparr>, 1)
   \<and> step ex_decode CallLogin (run ex_decode [CallLogin] (init_ctx, 0))
       = run ex_decode [CallLogin] (init_ctx, 0)
   \<and> run ex_decode [] (init_ctx, 0) = (init_ctx, 0)
   \<and> login_requests (fst (run ex_decode [CallLogin, CallLogin] (init_ctx, 0))) = 1"
proof -
  have i: "\<not> isLoginIn init_ctx" by (simp add: init_ctx_def)
  have r1: "run ex_decode [CallLogin] (init_ctx, 0) =
       (init_ctx\<lparr>loggingIn := Some True, isLoginIn := True, trace := [LoginAnonymous]\<rparr>, 1)"
    by (simp add: login_begin_def emit_def init_ctx_def)
  have r0: "run ex_decode [] (init_ctx, 0) = (init_ctx, 0)" by simp
  have l0: "login_requests init_ctx = 0" by (simp add: login_requests_def init_ctx_def)
  show ?thesis
    using login_reentrant [OF i r1] login_reentrant [OF i r0] i r1 r0 l0 by simp
qed

subsection \<open>disconnect\<close>

text \<open>
  C8. With a connection handle stored, \<open>disconnect\<close> tells the transport to tear that
  connection down and clears the handle, the snapshot and the connection error (and the
  events); with no handle stored it calls nothing, raises nothing and returns the state
  as it was.
\<close>

theorem disconnect_spec:
  "(connection s = Some h \<longrightarrow>
      disconnect s = s\<lparr>connection := None, playerState := None, events := None,
                       connectionError := None, trace := trace s @ [ConnDisconnect h]\<rparr>)
   \<and> (connection s = None \<longrightarrow> disconnect s = s)"
  by (simp add: disconnect_def setPlayerState_None emit_def)

text \<open>Disconnecting while playing, and disconnecting when nothing is connected.\<close>

theorem disconnect_spec_witness:
  "connection ex_playing = Some 0
   \<and> disconnect ex_playing =
       ex_playing\<lparr>connection := None, playerState := None, events := None,
                  connectionError := None, trace := trace ex_playing @ [ConnDisconnect 0]\<rparr>
   \<and> connection init_ctx = None
   \<and> disconnect init_ctx = init_ctx"
proof -
  have b: "connection init_ctx = None" by (simp add: init_ctx_def)
  show ?thesis
    using disconnect_spec [of ex_playing 0] disconnect_spec [of init_ctx] b
    by (simp add: ex_playing_fields)
qed

subsection \<open>The user derived from the token\<close>




subsection \<open>endGame\<close>

text \<open>
  C10. With a connection handle stored, \<open>endGame\<close> clears the snapshot and tells the
  transport to disconnect, and changes nothing else: the handle stays stored and the
  connection error stays as it was, where \<open>disconnect\<close> clears both.
\<close>

theorem endGame_keeps_handle:
  "connection s = Some h \<Longrightarrow>
     endGame s = s\<lparr>playerState := None, trace := trace s @ [ConnDisconnect h]\<rparr>
     \<and> connection (endGame s) = Some h
     \<and> connectionError (endGame s) = connectionError s
     \<and> connection (disconnect s) = None
     \<and> connectionError (disconnect s) = None"
  by (simp add: endGame_def disconnect_def setPlayerState_None emit_def)

text \<open>Leaving the game while playing.\<close>

theorem endGame_keeps_handle_witness:
  "connection ex_playing = Some 0
   \<and> endGame ex_playing =
       ex_playing\<lparr>playerState := None, trace := trace ex_playing @ [ConnDisconnect 0]\<rparr>
   \<and> connection (endGame ex_playing) = Some 0
   \<and> connection (disconnect ex_playing) = None"
  using endGame_keeps_handle [of ex_playing 0] by (simp add: ex_playing_fields)

end
